theory Spec2Isabelle
  imports Main "HOL-Library.Word" "HOL-Library.Sublist"
begin

section \<open>Values of the Go runtime used by package token\<close>

text \<open>
  A \<^verbatim>\<open>time.Time\<close> is modelled by its wall-clock reading, as the accessors \<^verbatim>\<open>sec()\<close> and
  \<^verbatim>\<open>nsec()\<close> of package time give it: the seconds since January 1, year 1, 00:00:00 UTC,
  a signed 64-bit integer, and the nanoseconds within that second. The location and the
  monotonic clock reading that \<^verbatim>\<open>time.Now\<close> attaches are left out; \<^verbatim>\<open>Before\<close> compares
  the wall-clock readings, as Go does unless both operands carry a monotonic reading (a
  Token decoded from the secret payload carries none). A \<^verbatim>\<open>time.Duration\<close> is a signed
  64-bit count of nanoseconds.
\<close>

record Time =
  sec :: int
  nsec :: int

type_synonym Duration = "64 word"

definition Minute :: Duration where
  "Minute = 60 * 1000000000"

text \<open>The zero value \<^verbatim>\<open>time.Time{}\<close>.\<close>

definition zero_Time :: Time where
  "zero_Time = \<lparr>sec = 0, nsec = 0\<rparr>"

text \<open>The value of a sum of two \<^verbatim>\<open>int64\<close> as Go computes it: it wraps around.\<close>

definition int64 :: "int \<Rightarrow> int" where
  "int64 x = (x + 9223372036854775808) mod 18446744073709551616 - 9223372036854775808"

text \<open>Go's integer division \<^verbatim>\<open>a / b\<close> for a positive \<open>b\<close>: it truncates towards zero.\<close>

definition quo :: "int \<Rightarrow> int \<Rightarrow> int" where
  "quo a b = (if 0 \<le> a then a div b else - ((- a) div b))"

definition IsZero :: "Time \<Rightarrow> bool" where
  "IsZero t = (sec t = 0 \<and> nsec t = 0)"

definition Before :: "Time \<Rightarrow> Time \<Rightarrow> bool" where
  "Before t u = (sec t < sec u \<or> (sec t = sec u \<and> nsec t < nsec u))"

text \<open>
  \<^verbatim>\<open>addSec\<close> adds seconds and, when the sum overflows, stops at the largest or at the
  negated largest \<^verbatim>\<open>int64\<close>. \<^verbatim>\<open>Add\<close> splits the duration into seconds and nanoseconds
  (\<^verbatim>\<open>d / 1e9\<close> and \<^verbatim>\<open>d % 1e9\<close>), carries the nanoseconds into the range of a second, and
  adds the seconds with \<^verbatim>\<open>addSec\<close>.
\<close>

definition addSec :: "Time \<Rightarrow> int \<Rightarrow> Time" where
  "addSec t d =
     (let sum = int64 (sec t + d)
      in if (sum > sec t) = (d > 0) then t\<lparr>sec := sum\<rparr>
         else if d > 0 then t\<lparr>sec := 9223372036854775807\<rparr>
         else t\<lparr>sec := - 9223372036854775807\<rparr>)"

definition Add :: "Time \<Rightarrow> Duration \<Rightarrow> Time" where
  "Add t d =
     (let dsec = quo (sint d) 1000000000;
          n = nsec t + (sint d - dsec * 1000000000)
      in if n \<ge> 1000000000 then addSec (t\<lparr>nsec := n - 1000000000\<rparr>) (dsec + 1)
         else if n < 0 then addSec (t\<lparr>nsec := n + 1000000000\<rparr>) (dsec - 1)
         else addSec (t\<lparr>nsec := n\<rparr>) dsec)"

text \<open>
  To state properties: the instant of a Time as one number, its nanoseconds since the zero
  instant; the records that stand for a \<^verbatim>\<open>time.Time\<close> value (seconds within \<^verbatim>\<open>int64\<close>,
  nanoseconds within a second); and the condition that the exact sum of a Time and a
  Duration falls into a second that \<^verbatim>\<open>int64\<close> can hold, so that \<^verbatim>\<open>Add\<close> does not
  saturate.
\<close>

definition instant :: "Time \<Rightarrow> int" where
  "instant t = sec t * 1000000000 + nsec t"

definition valid_Time :: "Time \<Rightarrow> bool" where
  "valid_Time t =
     (- 9223372036854775808 \<le> sec t \<and> sec t \<le> 9223372036854775807 \<and>
      0 \<le> nsec t \<and> nsec t < 1000000000)"

definition in_range :: "Time \<Rightarrow> Duration \<Rightarrow> bool" where
  "in_range t d =
     (- 9223372036854775808 \<le> (instant t + sint d) div 1000000000 \<and>
      (instant t + sint d) div 1000000000 \<le> 9223372036854775807)"

text \<open>
  A Go \<^verbatim>\<open>error\<close> value: either a plain message (\<^verbatim>\<open>errors.New\<close>) or the value built by
  \<^verbatim>\<open>fmt.Errorf\<close> with one \<^verbatim>\<open>%w\<close> verb, which keeps the formatted message and the
  wrapped cause.
\<close>

datatype error = ErrorString string | WrapError string error

fun Error :: "error \<Rightarrow> string" where
  "Error (ErrorString s) = s"
| "Error (WrapError m e) = m"

fun Unwrap :: "error \<Rightarrow> error option" where
  "Unwrap (ErrorString s) = None"
| "Unwrap (WrapError m e) = Some e"

text \<open>\<^verbatim>\<open>fmt.Errorf(text + "%w", err)\<close> for a text without verbs.\<close>

definition Errorf_w :: "string \<Rightarrow> error \<Rightarrow> error" where
  "Errorf_w text e = WrapError (text @ Error e) e"

text \<open>A call either returns its results or panics (here: a nil pointer dereference).\<close>

datatype 'a outcome = Panic | Return 'a

section \<open>Data model of package token\<close>

record Token =
  AccessToken :: string
  TokenType :: string
  RefreshToken :: string
  Expiry :: Time
  CreatedAt :: Time

text \<open>The zero value \<^verbatim>\<open>Token{}\<close>.\<close>

definition zero_Token :: Token where
  "zero_Token =
     \<lparr>AccessToken = [], TokenType = [], RefreshToken = [], Expiry = zero_Time,
      CreatedAt = zero_Time\<rparr>"

record config =
  tokenExpiryBuffer :: Duration

definition defaultConfig :: config where
  "defaultConfig = \<lparr>tokenExpiryBuffer = Minute\<rparr>"

text \<open>\<^verbatim>\<open>type Option func(*config)\<close>: an option updates the configuration in place.\<close>

type_synonym Option = "config \<Rightarrow> config"

definition WithTokenExpiryBuffer :: "Duration \<Rightarrow> Option" where
  "WithTokenExpiryBuffer buffer = (\<lambda>c. c\<lparr>tokenExpiryBuffer := buffer\<rparr>)"

text \<open>
  The \<^verbatim>\<open>Adapter\<close> interface. An implementation receives the context and may read and
  change the world outside the Fetcher (type \<open>'w\<close>); it returns Go's pair of a Token and
  an error (\<open>None\<close> is \<^verbatim>\<open>nil\<close>), or panics.
\<close>

type_synonym ('ctx, 'w) Adapter = "'ctx \<Rightarrow> 'w \<Rightarrow> (Token \<times> error option) outcome \<times> 'w"

text \<open>The \<^verbatim>\<open>clock.Clock\<close> interface: \<^verbatim>\<open>Now()\<close> reads the instant off the world.\<close>

type_synonym 'w Clock = "'w \<Rightarrow> Time"

definition NewFixed :: "Time \<Rightarrow> 'w Clock" where
  "NewFixed t = (\<lambda>_. t)"

record ('ctx, 'w) Fetcher =
  config :: config
  clock :: "'w Clock"
  adapter :: "('ctx, 'w) Adapter"
  token :: Token

text \<open>
  The environment of a run: the world outside the Fetcher, and the log of the contexts
  with which the Adapter's \<^verbatim>\<open>Fetch\<close> has been invoked so far, oldest first.
\<close>

record ('ctx, 'w) env =
  ext :: 'w
  adapter_calls :: "'ctx list"

section \<open>Construction\<close>

text \<open>
  \<^verbatim>\<open>New\<close> starts from \<^verbatim>\<open>defaultConfig\<close> and applies the options in order. The system
  clock \<^verbatim>\<open>clock.NewSystem()\<close> comes from another package and is the first parameter.
\<close>

definition New :: "'w Clock \<Rightarrow> ('ctx, 'w) Adapter \<Rightarrow> Option list \<Rightarrow> ('ctx, 'w) Fetcher" where
  "New system a opts =
     \<lparr>config = foldl (\<lambda>c opt. opt c) defaultConfig opts,
      clock = system,
      adapter = a,
      token = zero_Token\<rparr>"

section \<open>Fetch, refreshRequired, refresh\<close>

definition refreshRequired :: "('ctx, 'w) Fetcher \<Rightarrow> 'w \<Rightarrow> bool" where
  "refreshRequired f w =
     (AccessToken (token f) = [] \<or>
      (\<not> IsZero (Expiry (token f)) \<and>
       Before (Expiry (token f)) (Add (clock f w) (tokenExpiryBuffer (config f)))))"

text \<open>One invocation of the Adapter's \<^verbatim>\<open>Fetch\<close>, entered in the log.\<close>

definition invoke ::
  "('ctx, 'w) Adapter \<Rightarrow> 'ctx \<Rightarrow> ('ctx, 'w) env \<Rightarrow> (Token \<times> error option) outcome \<times> ('ctx, 'w) env" where
  "invoke a ctx s =
     (case a ctx (ext s) of
        (r, w') \<Rightarrow> (r, s\<lparr>ext := w', adapter_calls := adapter_calls s @ [ctx]\<rparr>))"

definition refresh ::
  "('ctx, 'w) Fetcher \<Rightarrow> 'ctx \<Rightarrow> ('ctx, 'w) env \<Rightarrow>
     (Token \<times> error option) outcome \<times> ('ctx, 'w) Fetcher \<times> ('ctx, 'w) env" where
  "refresh f ctx s =
     (case invoke (adapter f) ctx s of
        (Panic, s') \<Rightarrow> (Panic, f, s')
      | (Return (t, Some err), s') \<Rightarrow> (Return (zero_Token, Some err), f, s')
      | (Return (t, None), s') \<Rightarrow> (Return (t, None), f\<lparr>token := t\<rparr>, s'))"

definition Fetch ::
  "('ctx, 'w) Fetcher \<Rightarrow> 'ctx \<Rightarrow> ('ctx, 'w) env \<Rightarrow>
     (Token \<times> error option) outcome \<times> ('ctx, 'w) Fetcher \<times> ('ctx, 'w) env" where
  "Fetch f ctx s =
     (if refreshRequired f (ext s) then refresh f ctx s
      else (Return (token f, None), f, s))"

text \<open>The parts of what a call leaves behind: its results, the Fetcher, the environment.\<close>

abbreviation results_of :: "'r \<times> 'f \<times> 'e \<Rightarrow> 'r" where
  "results_of r \<equiv> fst r"

abbreviation fetcher_after :: "'r \<times> 'f \<times> 'e \<Rightarrow> 'f" where
  "fetcher_after r \<equiv> fst (snd r)"

abbreviation env_after :: "'r \<times> 'f \<times> 'e \<Rightarrow> 'e" where
  "env_after r \<equiv> snd (snd r)"

section \<open>The AWS Secrets Manager adapter\<close>

text \<open>
  Of the SDK's request and response structures only the fields the adapter touches are
  kept; both are pointers to strings, \<open>None\<close> for \<^verbatim>\<open>nil\<close>.
\<close>

record GetSecretValueInput =
  SecretId :: "string option"

record GetSecretValueOutput =
  SecretString :: "string option"

text \<open>
  \<^verbatim>\<open>GetSecretValue\<close> returns a pointer to the response (\<open>None\<close> for \<^verbatim>\<open>nil\<close>) and an
  error.
\<close>

type_synonym ('ctx, 'w) awsSecretsManagerClient =
  "'ctx \<Rightarrow> GetSecretValueInput \<Rightarrow> 'w \<Rightarrow> (GetSecretValueOutput option \<times> error option) \<times> 'w"

record ('ctx, 'w) awsSecretsManagerAdapter =
  client :: "('ctx, 'w) awsSecretsManagerClient"
  key :: string

text \<open>
  \<^verbatim>\<open>json.Unmarshal(data, &t)\<close> belongs to the standard library and is a parameter: given
  the payload and the Token it writes into, it yields that Token as it stands afterwards
  (on an error it may have been written in part) and the error.
\<close>

type_synonym Unmarshal = "string \<Rightarrow> Token \<Rightarrow> Token \<times> error option"

definition awsSecretsManagerAdapter_Fetch ::
  "Unmarshal \<Rightarrow> ('ctx, 'w) awsSecretsManagerAdapter \<Rightarrow> ('ctx, 'w) Adapter" where
  "awsSecretsManagerAdapter_Fetch unmarshal a ctx w =
     (case client a ctx \<lparr>SecretId = Some (key a)\<rparr> w of
        ((out, err), w') \<Rightarrow>
          (case err of
             Some e \<Rightarrow>
               (Return (zero_Token,
                  Some (Errorf_w ''unable to fetch token from secrets manager: '' e)), w')
           | None \<Rightarrow>
               (case out of
                  None \<Rightarrow> (Panic, w')
                | Some resp \<Rightarrow>
                    (case SecretString resp of
                       None \<Rightarrow> (Panic, w')
                     | Some payload \<Rightarrow>
                         (case unmarshal payload zero_Token of
                            (t, Some e) \<Rightarrow>
                              (Return (zero_Token,
                                 Some (Errorf_w ''unable to parse token from secrets manager: '' e)), w')
                          | (t, None) \<Rightarrow> (Return (t, None), w'))))))"

definition NewAWSSecretsManagerFetcher ::
  "'w Clock \<Rightarrow> Unmarshal \<Rightarrow> ('ctx, 'w) awsSecretsManagerClient \<Rightarrow> string \<Rightarrow> Option list \<Rightarrow>
     ('ctx, 'w) Fetcher" where
  "NewAWSSecretsManagerFetcher system unmarshal smClient smKey opts =
     New system (awsSecretsManagerAdapter_Fetch unmarshal \<lparr>client = smClient, key = smKey\<rparr>) opts"

section \<open>Concrete Fetchers, Adapters and store clients\<close>

text \<open>
  The values of the repository's tests: the instant 2030-01-02T00:00:00Z, the Token
  \<^verbatim>\<open>{AccessToken: "token-123"}\<close>, and mock Adapters. The world of these instances is
  the reading of the wall clock, and contexts are names.
\<close>

definition now2030 :: Time where
  "now2030 = \<lparr>sec = 64029139200, nsec = 0\<rparr>"

definition tok123 :: Token where
  "tok123 = zero_Token\<lparr>AccessToken := ''token-123''\<rparr>"

definition okAdapter :: "(string, Time) Adapter" where
  "okAdapter = (\<lambda>ctx w. (Return (tok123, None), w))"

definition failingAdapter :: "(string, Time) Adapter" where
  "failingAdapter = (\<lambda>ctx w. (Return (tok123, Some (ErrorString ''error'')), w))"

definition emptyAdapter :: "(string, Time) Adapter" where
  "emptyAdapter = (\<lambda>ctx w. (Return (zero_Token, None), w))"

text \<open>An Adapter whose Token carries the name of the context it was invoked with.\<close>

definition echoAdapter :: "(string, Time) Adapter" where
  "echoAdapter = (\<lambda>ctx w. (Return (zero_Token\<lparr>AccessToken := ctx\<rparr>, None), w))"

definition testFetcher :: "Duration \<Rightarrow> (string, Time) Adapter \<Rightarrow> Token \<Rightarrow> (string, Time) Fetcher" where
  "testFetcher buffer a t =
     \<lparr>config = \<lparr>tokenExpiryBuffer = buffer\<rparr>, clock = NewFixed now2030, adapter = a, token = t\<rparr>"



text \<open>
  A Fetcher whose clock reads the wall clock of the world, with a cached Token that expires
  at 2030-01-02T00:00:00Z, and an Adapter that fails while the wall clock is set back by
  two minutes.
\<close>

definition clockSetBackAdapter :: "(string, Time) Adapter" where
  "clockSetBackAdapter =
     (\<lambda>ctx w. (Return (zero_Token, Some (ErrorString ''error'')), w\<lparr>sec := sec w - 120\<rparr>))"

definition wallFetcher :: "(string, Time) Fetcher" where
  "wallFetcher =
     \<lparr>config = defaultConfig, clock = (\<lambda>w. w), adapter = clockSetBackAdapter,
      token = tok123\<lparr>Expiry := now2030\<rparr>\<rparr>"

definition env0 :: "(string, Time) env" where
  "env0 = \<lparr>ext = now2030, adapter_calls = []\<rparr>"

text \<open>
  Store clients as the repository's test mocks them: one that fails, and one that answers
  with a response whose secret string is the given pointer. The decoder of these instances
  stands in for \<^verbatim>\<open>json.Unmarshal\<close>: it rejects the malformed payload of the test after
  having written a field, and otherwise takes the payload for the access token.
\<close>

definition storeErrorClient :: "(string, Time) awsSecretsManagerClient" where
  "storeErrorClient =
     (\<lambda>ctx params w. ((Some \<lparr>SecretString = None\<rparr>, Some (ErrorString ''secrets manager error'')), w))"

definition secretClient :: "string option \<Rightarrow> (string, Time) awsSecretsManagerClient" where
  "secretClient payload = (\<lambda>ctx params w. ((Some \<lparr>SecretString = payload\<rparr>, None), w))"

definition testUnmarshal :: Unmarshal where
  "testUnmarshal data t =
     (if data = ''{invalid-json]''
      then (t\<lparr>AccessToken := ''partial''\<rparr>, Some (ErrorString ''invalid character''))
      else (t\<lparr>AccessToken := data\<rparr>, None))"

definition testAdapter ::
  "(string, Time) awsSecretsManagerClient \<Rightarrow> (string, Time) awsSecretsManagerAdapter" where
  "testAdapter c = \<lparr>client = c, key = ''secret-key''\<rparr>"

section \<open>Arithmetic of time.Time\<close>

lemma int64_id: "- 9223372036854775808 \<le> x \<Longrightarrow> x \<le> 9223372036854775807 \<Longrightarrow> int64 x = x"
  unfolding int64_def by (subst mod_pos_pos_trivial) simp_all

lemma quo_rem_nonneg:
  fixes a b :: int
  assumes "0 < b" "0 \<le> a"
  shows "0 \<le> a - quo a b * b \<and> a - quo a b * b < b"
proof -
  have "a - (a div b) * b = a mod b"
    by (simp add: minus_div_mult_eq_mod)
  then show ?thesis
    using assms by (simp add: quo_def)
qed

lemma quo_rem_neg:
  fixes a b :: int
  assumes "0 < b" "a < 0"
  shows "- b < a - quo a b * b \<and> a - quo a b * b \<le> 0"
proof -
  have "(- a) - ((- a) div b) * b = (- a) mod b"
    by (simp add: minus_div_mult_eq_mod)
  then have "a - quo a b * b = - ((- a) mod b)"
    using assms by (simp add: quo_def)
  then show ?thesis
    using assms by simp
qed

lemma lex_less:
  fixes b :: int
  assumes "0 \<le> n" "n < b" "0 \<le> m" "m < b"
  shows "(s < u \<or> (s = u \<and> n < m)) \<longleftrightarrow> s * b + n < u * b + m"
proof
  assume "s < u \<or> (s = u \<and> n < m)"
  then show "s * b + n < u * b + m"
  proof
    assume "s < u"
    then have "s + 1 \<le> u" by simp
    then have "(s + 1) * b \<le> u * b"
      using assms by (intro mult_right_mono) simp_all
    then show ?thesis
      using assms by (simp add: algebra_simps)
  next
    assume "s = u \<and> n < m"
    then show ?thesis by simp
  qed
next
  assume h: "s * b + n < u * b + m"
  show "s < u \<or> (s = u \<and> n < m)"
  proof (cases "s < u")
    case True
    then show ?thesis by simp
  next
    case False
    have "\<not> u < s"
    proof
      assume "u < s"
      then have "u + 1 \<le> s" by simp
      then have "(u + 1) * b \<le> s * b"
        using assms by (intro mult_right_mono) simp_all
      with h assms show False
        by (simp add: algebra_simps)
    qed
    with False have "s = u" by simp
    with h show ?thesis by simp
  qed
qed

lemma Before_instant:
  "0 \<le> nsec t \<Longrightarrow> nsec t < 1000000000 \<Longrightarrow> 0 \<le> nsec u \<Longrightarrow> nsec u < 1000000000 \<Longrightarrow>
   Before t u \<longleftrightarrow> instant t < instant u"
  unfolding Before_def instant_def by (rule lex_less)


lemma addSec_in_range:
  "- 9223372036854775808 \<le> sec t + d \<Longrightarrow> sec t + d \<le> 9223372036854775807 \<Longrightarrow>
   addSec t d = t\<lparr>sec := sec t + d\<rparr>"
  by (auto simp add: addSec_def int64_id Let_def)



lemma Add_normal:
  assumes "valid_Time t"
  shows "\<exists>k n. 0 \<le> n \<and> n < 1000000000 \<and> Add t d = addSec (t\<lparr>nsec := n\<rparr>) k \<and>
           (sec t + k) * 1000000000 + n = instant t + sint d"
proof -
  define q where "q = quo (sint d) 1000000000"
  define r where "r = sint d - q * 1000000000"
  have r: "- 1000000000 < r \<and> r < 1000000000"
    using quo_rem_nonneg [of 1000000000 "sint d"] quo_rem_neg [of 1000000000 "sint d"]
    unfolding r_def q_def by (cases "0 \<le> sint d") auto
  have n: "0 \<le> nsec t \<and> nsec t < 1000000000"
    using assms by (simp add: valid_Time_def)
  have A: "Add t d =
      (if nsec t + r \<ge> 1000000000 then addSec (t\<lparr>nsec := nsec t + r - 1000000000\<rparr>) (q + 1)
       else if nsec t + r < 0 then addSec (t\<lparr>nsec := nsec t + r + 1000000000\<rparr>) (q - 1)
       else addSec (t\<lparr>nsec := nsec t + r\<rparr>) q)"
    by (simp add: Add_def Let_def q_def r_def)
  have a: "sint d = q * 1000000000 + r"
    by (simp add: r_def)
  consider "nsec t + r \<ge> 1000000000" | "nsec t + r < 0"
    | "0 \<le> nsec t + r \<and> nsec t + r < 1000000000"
    by linarith
  then show ?thesis
  proof cases
    case 1
    then have "Add t d = addSec (t\<lparr>nsec := nsec t + r - 1000000000\<rparr>) (q + 1)"
      using A by simp
    moreover have "(sec t + (q + 1)) * 1000000000 + (nsec t + r - 1000000000) = instant t + sint d"
      by (simp add: instant_def a algebra_simps)
    ultimately show ?thesis
      using 1 r n by (intro exI [of _ "q + 1"] exI [of _ "nsec t + r - 1000000000"]) simp
  next
    case 2
    then have "Add t d = addSec (t\<lparr>nsec := nsec t + r + 1000000000\<rparr>) (q - 1)"
      using A by simp
    moreover have "(sec t + (q - 1)) * 1000000000 + (nsec t + r + 1000000000) = instant t + sint d"
      by (simp add: instant_def a algebra_simps)
    ultimately show ?thesis
      using 2 r n by (intro exI [of _ "q - 1"] exI [of _ "nsec t + r + 1000000000"]) simp
  next
    case 3
    then have "Add t d = addSec (t\<lparr>nsec := nsec t + r\<rparr>) q"
      using A by simp
    moreover have "(sec t + q) * 1000000000 + (nsec t + r) = instant t + sint d"
      by (simp add: instant_def a algebra_simps)
    ultimately show ?thesis
      using 3 by (intro exI [of _ q] exI [of _ "nsec t + r"]) simp
  qed
qed

lemma div_unique_nsec:
  fixes k n :: int
  assumes "0 \<le> n" "n < 1000000000"
  shows "(k * 1000000000 + n) div 1000000000 = k"
  using assms by simp

lemma Add_in_range:
  assumes "valid_Time t" and "in_range t d"
  shows "instant (Add t d) = instant t + sint d \<and> valid_Time (Add t d)"
proof -
  obtain k n where kn: "0 \<le> n" "n < 1000000000" "Add t d = addSec (t\<lparr>nsec := n\<rparr>) k"
    "(sec t + k) * 1000000000 + n = instant t + sint d"
    using Add_normal [OF assms(1)] by blast
  have "(instant t + sint d) div 1000000000 = sec t + k"
    using div_unique_nsec [OF kn(1,2), of "sec t + k"] kn(4) by simp
  then have b: "- 9223372036854775808 \<le> sec t + k" "sec t + k \<le> 9223372036854775807"
    using assms(2) by (simp_all add: in_range_def)
  have "Add t d = t\<lparr>nsec := n, sec := sec t + k\<rparr>"
    using addSec_in_range [of "t\<lparr>nsec := n\<rparr>" k] b kn(3) by simp
  then show ?thesis
    using kn b by (simp add: instant_def valid_Time_def)
qed

lemma Before_Add_pos:
  assumes "valid_Time t" and "in_range t d" and "0 < sint d"
  shows "Before t (Add t d)"
proof -
  have "instant t < instant (Add t d)" and v: "valid_Time (Add t d)"
    using Add_in_range [OF assms(1,2)] assms(3) by simp_all
  then show ?thesis
    using assms(1) v by (simp add: Before_instant valid_Time_def)
qed

lemma IsZero_instant:
  assumes "valid_Time t"
  shows "IsZero t \<longleftrightarrow> instant t = 0"
proof
  assume "IsZero t"
  then show "instant t = 0"
    by (simp add: IsZero_def instant_def)
next
  assume z: "instant t = 0"
  have "(sec t * 1000000000 + nsec t) div 1000000000 = sec t"
    using assms by (intro div_unique_nsec) (simp_all add: valid_Time_def)
  with z have "sec t = 0"
    by (simp add: instant_def)
  with z show "IsZero t"
    by (simp add: IsZero_def instant_def)
qed

lemma sint_Minute: "sint Minute = 60000000000"
  by (simp add: Minute_def)

lemma now2030_facts:
  "valid_Time now2030" "\<not> IsZero now2030" "in_range now2030 Minute" "in_range now2030 0"
  by (simp_all add: now2030_def valid_Time_def IsZero_def in_range_def instant_def sint_Minute)


section \<open>The refresh-required predicate\<close>

lemma refreshRequired_instants:
  assumes "valid_Time (Expiry (token f))" and "valid_Time (clock f w)"
    and "in_range (clock f w) (tokenExpiryBuffer (config f))"
  shows "refreshRequired f w \<longleftrightarrow>
           AccessToken (token f) = [] \<or>
           (instant (Expiry (token f)) \<noteq> 0 \<and>
            instant (Expiry (token f)) <
              instant (clock f w) + sint (tokenExpiryBuffer (config f)))"
proof -
  have "instant (Add (clock f w) (tokenExpiryBuffer (config f))) =
      instant (clock f w) + sint (tokenExpiryBuffer (config f))"
    and "valid_Time (Add (clock f w) (tokenExpiryBuffer (config f)))"
    using Add_in_range [OF assms(2,3)] by simp_all
  then have "Before (Expiry (token f)) (Add (clock f w) (tokenExpiryBuffer (config f))) \<longleftrightarrow>
      instant (Expiry (token f)) < instant (clock f w) + sint (tokenExpiryBuffer (config f))"
    using assms(1) by (simp add: Before_instant valid_Time_def)
  then show ?thesis
    using IsZero_instant [OF assms(1)] by (simp add: refreshRequired_def)
qed




section \<open>The configured expiry buffer\<close>

lemma foldl_buffer_last:
  "tokenExpiryBuffer (foldl (\<lambda>c opt. opt c) c0 (opts @ [WithTokenExpiryBuffer d])) = d"
  by (simp add: WithTokenExpiryBuffer_def)

lemma foldl_buffer_map:
  "tokenExpiryBuffer (foldl (\<lambda>c opt. opt c) c0 (map WithTokenExpiryBuffer ds)) =
     (if ds = [] then tokenExpiryBuffer c0 else last ds)"
  by (induction ds arbitrary: c0) (simp_all add: WithTokenExpiryBuffer_def)

lemma New_buffer_default: "tokenExpiryBuffer (config (New system a [])) = Minute"
  by (simp add: New_def defaultConfig_def)

lemma New_buffer_last:
  "tokenExpiryBuffer (config (New system a (opts @ [WithTokenExpiryBuffer d]))) = d"
  unfolding New_def by (simp only: Fetcher.simps foldl_buffer_last)

lemma New_buffer_single:
  "tokenExpiryBuffer (config (New system a [WithTokenExpiryBuffer d])) = d"
  using New_buffer_last [of system a "[]" d] by simp

lemma New_buffer_map:
  "tokenExpiryBuffer (config (New system a (map WithTokenExpiryBuffer (ds @ [d])))) = d"
  unfolding New_def by (simp only: Fetcher.simps foldl_buffer_map) simp

text \<open>
  Claim C9. A Fetcher constructed with no option has an expiry buffer of one minute
  (60 000 000 000 ns). A Fetcher constructed with options ending in
  \<^verbatim>\<open>WithTokenExpiryBuffer(d)\<close> has the buffer \<open>d\<close>, whatever options came before; so of
  several expiry-buffer options the last one counts. The same holds for the constructor
  of the Secrets Manager Fetcher, which passes its options on.
\<close>

theorem New_tokenExpiryBuffer:
  "tokenExpiryBuffer (config (New system a [])) = Minute \<and>
   sint Minute = 60 * 1000000000 \<and>
   tokenExpiryBuffer (config (New system a [WithTokenExpiryBuffer d])) = d \<and>
   tokenExpiryBuffer (config (New system a (opts @ [WithTokenExpiryBuffer d]))) = d \<and>
   tokenExpiryBuffer (config (New system a (map WithTokenExpiryBuffer (ds @ [d])))) = d \<and>
   tokenExpiryBuffer (config (NewAWSSecretsManagerFetcher system unmarshal smClient smKey [])) = Minute \<and>
   tokenExpiryBuffer (config (NewAWSSecretsManagerFetcher system unmarshal smClient smKey
      (opts @ [WithTokenExpiryBuffer d]))) = d"
  by (simp only: NewAWSSecretsManagerFetcher_def New_buffer_default New_buffer_last
      New_buffer_single New_buffer_map sint_Minute) simp

section \<open>Fetch: the two paths\<close>

lemma Fetch_cached:
  "\<not> refreshRequired f (ext s) \<Longrightarrow> Fetch f ctx s = (Return (token f, None), f, s)"
  by (simp add: Fetch_def)

lemma Fetch_refresh_ok:
  "refreshRequired f (ext s) \<Longrightarrow> adapter f ctx (ext s) = (Return (t, None), w') \<Longrightarrow>
   Fetch f ctx s =
     (Return (t, None), f\<lparr>token := t\<rparr>, s\<lparr>ext := w', adapter_calls := adapter_calls s @ [ctx]\<rparr>)"
  by (simp add: Fetch_def refresh_def invoke_def)

lemma Fetch_refresh_err:
  "refreshRequired f (ext s) \<Longrightarrow> adapter f ctx (ext s) = (Return (t, Some e), w') \<Longrightarrow>
   Fetch f ctx s =
     (Return (zero_Token, Some e), f, s\<lparr>ext := w', adapter_calls := adapter_calls s @ [ctx]\<rparr>)"
  by (simp add: Fetch_def refresh_def invoke_def)

lemma Fetch_refresh_panic:
  "refreshRequired f (ext s) \<Longrightarrow> adapter f ctx (ext s) = (Panic, w') \<Longrightarrow>
   Fetch f ctx s = (Panic, f, s\<lparr>ext := w', adapter_calls := adapter_calls s @ [ctx]\<rparr>)"
  by (simp add: Fetch_def refresh_def invoke_def)

lemma refresh_env:
  "env_after (refresh f ctx s) =
     s\<lparr>ext := snd (adapter f ctx (ext s)), adapter_calls := adapter_calls s @ [ctx]\<rparr>"
  by (simp add: refresh_def invoke_def split: prod.splits outcome.splits option.splits)

lemma refresh_results:
  "results_of (refresh f ctx s) =
     (case fst (adapter f ctx (ext s)) of
        Panic \<Rightarrow> Panic
      | Return (t, None) \<Rightarrow> Return (t, None)
      | Return (t, Some err) \<Rightarrow> Return (zero_Token, Some err))"
  by (simp add: refresh_def invoke_def split: prod.splits outcome.splits option.splits)

lemma Fetch_calls:
  "adapter_calls (env_after (Fetch f ctx s)) =
     (if refreshRequired f (ext s) then adapter_calls s @ [ctx] else adapter_calls s)"
  by (simp add: Fetch_def refresh_env)

lemma refreshRequired_empty: "AccessToken (token f) = [] \<Longrightarrow> refreshRequired f w"
  by (simp add: refreshRequired_def)

lemma refreshRequired_later:
  assumes "refreshRequired f w"
    and "valid_Time (Expiry (token f))" and "valid_Time (clock f w)" and "valid_Time (clock f w2)"
    and "in_range (clock f w) (tokenExpiryBuffer (config f))"
    and "in_range (clock f w2) (tokenExpiryBuffer (config f))"
    and "instant (clock f w) \<le> instant (clock f w2)"
  shows "refreshRequired f w2"
  using assms(1,7)
  unfolding refreshRequired_instants [OF assms(2,3,5)] refreshRequired_instants [OF assms(2,4,6)]
  by auto

lemma refreshRequired_same_reading:
  "refreshRequired f w \<Longrightarrow> clock f w2 = clock f w \<Longrightarrow> refreshRequired f w2"
  by (simp add: refreshRequired_def)

lemma refreshRequired_testFetcher:
  "refreshRequired (testFetcher b a t) w \<longleftrightarrow>
     AccessToken t = [] \<or> (\<not> IsZero (Expiry t) \<and> Before (Expiry t) (Add now2030 b))"
  by (simp add: refreshRequired_def testFetcher_def NewFixed_def)

lemma tok123_simps:
  "AccessToken tok123 = ''token-123''" "IsZero (Expiry tok123)"
  "AccessToken zero_Token = []" "IsZero (Expiry zero_Token)"
  by (simp_all add: tok123_def zero_Token_def zero_Time_def IsZero_def)

lemma now2030_stale: "Before now2030 (Add now2030 Minute)"
  by (intro Before_Add_pos) (simp_all add: now2030_facts sint_Minute)

text \<open>
  Claim C2. When the predicate \<^verbatim>\<open>refreshRequired\<close> is false, \<^verbatim>\<open>Fetch\<close> returns the
  cached Token with a nil error and leaves the Fetcher and the environment as they were: the
  log of Adapter calls and the outside world are unchanged, and the results are the same
  whatever Adapter the Fetcher holds.
\<close>

theorem Fetch_valid_cache:
  assumes "\<not> refreshRequired f (ext s)"
  shows "Fetch f ctx s = (Return (token f, None), f, s) \<and>
         adapter_calls (env_after (Fetch f ctx s)) = adapter_calls s \<and>
         token (fetcher_after (Fetch f ctx s)) = token f \<and>
         config (fetcher_after (Fetch f ctx s)) = config f \<and>
         results_of (Fetch (f\<lparr>adapter := a'\<rparr>) ctx s) = Return (token f, None)"
proof -
  have "\<not> refreshRequired (f\<lparr>adapter := a'\<rparr>) (ext s)"
    using assms by (simp add: refreshRequired_def)
  then have "Fetch (f\<lparr>adapter := a'\<rparr>) ctx s = (Return (token f, None), f\<lparr>adapter := a'\<rparr>, s)"
    using Fetch_cached [of "f\<lparr>adapter := a'\<rparr>" s ctx] by simp
  then show ?thesis
    using Fetch_cached [OF assms, of ctx] by simp
qed

theorem Fetch_valid_cache_witness:
  "Fetch (testFetcher Minute failingAdapter tok123) ''ctx-1'' env0 =
     (Return (tok123, None), testFetcher Minute failingAdapter tok123, env0) \<and>
   adapter_calls (env_after (Fetch (testFetcher Minute failingAdapter tok123) ''ctx-1'' env0)) = []"
proof -
  have h: "\<not> refreshRequired (testFetcher Minute failingAdapter tok123) (ext env0)"
    by (simp add: refreshRequired_testFetcher tok123_simps)
  have "token (testFetcher Minute failingAdapter tok123) = tok123" "adapter_calls env0 = []"
    by (simp_all add: testFetcher_def env0_def)
  then show ?thesis
    using Fetch_valid_cache [OF h, of "''ctx-1''"] by simp
qed

text \<open>
  Claim C3. When \<^verbatim>\<open>refreshRequired\<close> holds (as it does whenever the cached access token
  is empty), one call of \<^verbatim>\<open>Fetch\<close> adds exactly one entry to the log of Adapter calls,
  and no call of \<^verbatim>\<open>Fetch\<close> adds more than one. When that Adapter call returns a Token
  with a nil error, \<^verbatim>\<open>Fetch\<close> returns this Token with a nil error and the Fetcher's cached
  Token is replaced by it, all five fields at once; nothing else of the Fetcher changes.
\<close>

theorem Fetch_refresh_once:
  "(refreshRequired f (ext s) \<longrightarrow>
      length (adapter_calls (env_after (Fetch f ctx s))) = Suc (length (adapter_calls s))) \<and>
   (AccessToken (token f) = [] \<longrightarrow>
      length (adapter_calls (env_after (Fetch f ctx s))) = Suc (length (adapter_calls s))) \<and>
   length (adapter_calls (env_after (Fetch f ctx s))) \<le> Suc (length (adapter_calls s)) \<and>
   (refreshRequired f (ext s) \<and> adapter f ctx (ext s) = (Return (t, None), w') \<longrightarrow>
      results_of (Fetch f ctx s) = Return (t, None) \<and>
      fetcher_after (Fetch f ctx s) = f\<lparr>token := t\<rparr> \<and>
      token (fetcher_after (Fetch f ctx s)) = t)"
proof -
  have "refreshRequired f (ext s)" if "AccessToken (token f) = []"
    using that by (rule refreshRequired_empty)
  moreover have "results_of (Fetch f ctx s) = Return (t, None) \<and>
      fetcher_after (Fetch f ctx s) = f\<lparr>token := t\<rparr> \<and>
      token (fetcher_after (Fetch f ctx s)) = t"
    if "refreshRequired f (ext s)" "adapter f ctx (ext s) = (Return (t, None), w')"
    using Fetch_refresh_ok [OF that] by simp
  ultimately show ?thesis
    by (auto simp add: Fetch_calls)
qed

theorem Fetch_refresh_once_witness:
  "length (adapter_calls (env_after (Fetch (testFetcher Minute okAdapter zero_Token) ''ctx-1'' env0))) = 1 \<and>
   results_of (Fetch (testFetcher Minute okAdapter zero_Token) ''ctx-1'' env0) = Return (tok123, None) \<and>
   fetcher_after (Fetch (testFetcher Minute okAdapter zero_Token) ''ctx-1'' env0) =
     testFetcher Minute okAdapter tok123"
proof -
  have h: "refreshRequired (testFetcher Minute okAdapter zero_Token) (ext env0)"
    by (simp add: refreshRequired_testFetcher tok123_simps)
  have a: "adapter (testFetcher Minute okAdapter zero_Token) ''ctx-1'' (ext env0) =
      (Return (tok123, None), now2030)"
    by (simp add: testFetcher_def okAdapter_def env0_def)
  have "adapter_calls env0 = []"
    "(testFetcher Minute okAdapter zero_Token)\<lparr>token := tok123\<rparr> = testFetcher Minute okAdapter tok123"
    by (simp_all add: testFetcher_def env0_def)
  then show ?thesis
    using Fetch_refresh_once [of "testFetcher Minute okAdapter zero_Token" env0 "''ctx-1''"
        tok123 now2030] h a
    by simp
qed

text \<open>
  Claim C4, as the code has it. When \<^verbatim>\<open>refreshRequired\<close> holds and the Adapter returns
  an error (with whatever Token), \<^verbatim>\<open>Fetch\<close> returns the zero Token together with exactly
  that error, and the Fetcher after the call equals the Fetcher before it, cached Token
  included. At a later \<^verbatim>\<open>Fetch\<close> the predicate \<^verbatim>\<open>refreshRequired\<close> holds again, and the
  Adapter is invoked again, in each of these cases: the cached access token is empty; the
  clock reads what it read at the failed call; the clock reads an instant that is not
  earlier, and the sums of both readings with the buffer are within the range of
  \<^verbatim>\<open>time.Time\<close>.
\<close>

theorem Fetch_adapter_error:
  assumes "refreshRequired f (ext s)"
    and "adapter f ctx (ext s) = (Return (t, Some e), w')"
  shows "results_of (Fetch f ctx s) = Return (zero_Token, Some e) \<and>
         fetcher_after (Fetch f ctx s) = f \<and>
         token (fetcher_after (Fetch f ctx s)) = token f \<and>
         refreshRequired (fetcher_after (Fetch f ctx s)) (ext s) \<and>
         (AccessToken (token f) = [] \<or>
          clock f (ext s2) = clock f (ext s) \<or>
          (valid_Time (Expiry (token f)) \<and> valid_Time (clock f (ext s)) \<and>
           valid_Time (clock f (ext s2)) \<and>
           in_range (clock f (ext s)) (tokenExpiryBuffer (config f)) \<and>
           in_range (clock f (ext s2)) (tokenExpiryBuffer (config f)) \<and>
           instant (clock f (ext s)) \<le> instant (clock f (ext s2))) \<longrightarrow>
            refreshRequired (fetcher_after (Fetch f ctx s)) (ext s2) \<and>
            adapter_calls (env_after (Fetch (fetcher_after (Fetch f ctx s)) ctx2 s2)) =
              adapter_calls s2 @ [ctx2])"
proof -
  have after: "fetcher_after (Fetch f ctx s) = f"
    and res: "results_of (Fetch f ctx s) = Return (zero_Token, Some e)"
    using Fetch_refresh_err [OF assms] by simp_all
  have "refreshRequired f (ext s2)"
    if "AccessToken (token f) = [] \<or>
        clock f (ext s2) = clock f (ext s) \<or>
        (valid_Time (Expiry (token f)) \<and> valid_Time (clock f (ext s)) \<and>
         valid_Time (clock f (ext s2)) \<and>
         in_range (clock f (ext s)) (tokenExpiryBuffer (config f)) \<and>
         in_range (clock f (ext s2)) (tokenExpiryBuffer (config f)) \<and>
         instant (clock f (ext s)) \<le> instant (clock f (ext s2)))"
    using that
  proof (elim disjE)
    assume "AccessToken (token f) = []"
    then show ?thesis
      by (rule refreshRequired_empty)
  next
    assume "clock f (ext s2) = clock f (ext s)"
    with assms(1) show ?thesis
      by (rule refreshRequired_same_reading)
  next
    assume "valid_Time (Expiry (token f)) \<and> valid_Time (clock f (ext s)) \<and>
         valid_Time (clock f (ext s2)) \<and>
         in_range (clock f (ext s)) (tokenExpiryBuffer (config f)) \<and>
         in_range (clock f (ext s2)) (tokenExpiryBuffer (config f)) \<and>
         instant (clock f (ext s)) \<le> instant (clock f (ext s2))"
    with assms(1) show ?thesis
      by (intro refreshRequired_later [of f "ext s" "ext s2"]) simp_all
  qed
  then show ?thesis
    using assms(1) by (simp add: after res Fetch_calls)
qed

theorem Fetch_adapter_error_witness:
  "results_of (Fetch (testFetcher Minute failingAdapter (tok123\<lparr>Expiry := now2030\<rparr>)) ''ctx-1'' env0) =
     Return (zero_Token, Some (ErrorString ''error'')) \<and>
   fetcher_after (Fetch (testFetcher Minute failingAdapter (tok123\<lparr>Expiry := now2030\<rparr>)) ''ctx-1'' env0) =
     testFetcher Minute failingAdapter (tok123\<lparr>Expiry := now2030\<rparr>) \<and>
   adapter_calls (env_after (Fetch
     (fetcher_after (Fetch (testFetcher Minute failingAdapter (tok123\<lparr>Expiry := now2030\<rparr>)) ''ctx-1'' env0))
     ''ctx-2''
     (env_after (Fetch (testFetcher Minute failingAdapter (tok123\<lparr>Expiry := now2030\<rparr>)) ''ctx-1'' env0)))) =
     [''ctx-1'', ''ctx-2'']"
proof -
  let ?f = "testFetcher Minute failingAdapter (tok123\<lparr>Expiry := now2030\<rparr>)"
  let ?s2 = "env_after (Fetch ?f ''ctx-1'' env0)"
  have h: "refreshRequired ?f (ext env0)"
    by (simp add: refreshRequired_testFetcher tok123_simps now2030_facts now2030_stale)
  have a: "adapter ?f ''ctx-1'' (ext env0) = (Return (tok123, Some (ErrorString ''error'')), now2030)"
    by (simp add: testFetcher_def failingAdapter_def env0_def)
  have c: "adapter_calls ?s2 = [''ctx-1'']"
    using h by (simp add: Fetch_calls env0_def)
  have v: "valid_Time (Expiry (token ?f))" "valid_Time (clock ?f (ext env0))"
    "valid_Time (clock ?f (ext ?s2))"
    "in_range (clock ?f (ext env0)) (tokenExpiryBuffer (config ?f))"
    "in_range (clock ?f (ext ?s2)) (tokenExpiryBuffer (config ?f))"
    "instant (clock ?f (ext env0)) \<le> instant (clock ?f (ext ?s2))"
    by (simp_all add: testFetcher_def NewFixed_def now2030_facts)
  with Fetch_adapter_error [OF h a, of ?s2 "''ctx-2''"]
  have "results_of (Fetch ?f ''ctx-1'' env0) = Return (zero_Token, Some (ErrorString ''error''))"
    and "fetcher_after (Fetch ?f ''ctx-1'' env0) = ?f"
    and "adapter_calls (env_after (Fetch (fetcher_after (Fetch ?f ''ctx-1'' env0)) ''ctx-2'' ?s2)) =
        adapter_calls ?s2 @ [''ctx-2'']"
    by blast+
  then show ?thesis
    by (simp only: c append.simps simp_thms)
qed

text \<open>
  Without such a condition the last part of the claim fails. The cached Token expires at
  2030-01-02T00:00:00Z, the buffer is one minute and the clock reads that instant: a refresh
  is required. The Adapter fails, and meanwhile the wall clock is set back by two minutes.
  The next \<^verbatim>\<open>Fetch\<close> finds no refresh required: it returns the cached Token with a nil
  error and does not invoke the Adapter.
\<close>

theorem Fetch_after_clock_set_back:
  "refreshRequired wallFetcher (ext env0) \<and>
   results_of (Fetch wallFetcher ''ctx-1'' env0) = Return (zero_Token, Some (ErrorString ''error'')) \<and>
   fetcher_after (Fetch wallFetcher ''ctx-1'' env0) = wallFetcher \<and>
   ext (env_after (Fetch wallFetcher ''ctx-1'' env0)) = \<lparr>sec = 64029139080, nsec = 0\<rparr> \<and>
   \<not> refreshRequired (fetcher_after (Fetch wallFetcher ''ctx-1'' env0))
       (ext (env_after (Fetch wallFetcher ''ctx-1'' env0))) \<and>
   results_of (Fetch (fetcher_after (Fetch wallFetcher ''ctx-1'' env0)) ''ctx-2''
       (env_after (Fetch wallFetcher ''ctx-1'' env0))) =
     Return (tok123\<lparr>Expiry := now2030\<rparr>, None) \<and>
   adapter_calls (env_after (Fetch (fetcher_after (Fetch wallFetcher ''ctx-1'' env0)) ''ctx-2''
       (env_after (Fetch wallFetcher ''ctx-1'' env0)))) = [''ctx-1'']"
proof -
  let ?s2 = "env0\<lparr>ext := \<lparr>sec = 64029139080, nsec = 0\<rparr>, adapter_calls := [''ctx-1'']\<rparr>"
  have h: "refreshRequired wallFetcher (ext env0)"
    by (simp add: refreshRequired_def wallFetcher_def env0_def tok123_def now2030_facts
        now2030_stale defaultConfig_def)
  have a: "adapter wallFetcher ''ctx-1'' (ext env0) =
      (Return (zero_Token, Some (ErrorString ''error'')), \<lparr>sec = 64029139080, nsec = 0\<rparr>)"
    by (simp add: wallFetcher_def clockSetBackAdapter_def env0_def now2030_def)
  have first: "Fetch wallFetcher ''ctx-1'' env0 =
      (Return (zero_Token, Some (ErrorString ''error'')), wallFetcher, ?s2)"
    using Fetch_refresh_err [OF h a] by (simp add: env0_def)
  have "Add \<lparr>sec = 64029139080, nsec = 0\<rparr> Minute = \<lparr>sec = 64029139140, nsec = 0\<rparr>"
    by (simp add: Add_def addSec_def int64_def quo_def sint_Minute)
  then have n: "\<not> refreshRequired wallFetcher (ext ?s2)"
    by (simp add: refreshRequired_def wallFetcher_def defaultConfig_def tok123_def
        now2030_def Before_def)
  have second: "Fetch wallFetcher ''ctx-2'' ?s2 = (Return (token wallFetcher, None), wallFetcher, ?s2)"
    using n by (rule Fetch_cached)
  have "token wallFetcher = tok123\<lparr>Expiry := now2030\<rparr>"
    by (simp add: wallFetcher_def)
  then show ?thesis
    using h n by (simp add: first second)
qed

text \<open>
  Claim C5, as the code has it. A \<^verbatim>\<open>Fetch\<close> that returns a nil error returns either the
  cached Token, without an Adapter call, and then its access token is not empty; or the
  Token that the Adapter returned with a nil error in this call, which is returned and
  cached whatever its access token is. If that access token is empty, \<^verbatim>\<open>refreshRequired\<close>
  holds for the Fetcher afterwards at every reading of the clock, so the empty Token is
  not served from the cache.
\<close>

theorem Fetch_nil_error_token:
  assumes "results_of (Fetch f ctx s) = Return (t, None)"
  shows "(\<not> refreshRequired f (ext s) \<and> t = token f \<and> AccessToken t \<noteq> [] \<and>
            adapter_calls (env_after (Fetch f ctx s)) = adapter_calls s) \<or>
         (refreshRequired f (ext s) \<and> fst (adapter f ctx (ext s)) = Return (t, None) \<and>
            token (fetcher_after (Fetch f ctx s)) = t \<and>
            adapter_calls (env_after (Fetch f ctx s)) = adapter_calls s @ [ctx] \<and>
            (AccessToken t = [] \<longrightarrow> refreshRequired (fetcher_after (Fetch f ctx s)) w2))"
proof (cases "refreshRequired f (ext s)")
  case False
  then have "Fetch f ctx s = (Return (token f, None), f, s)"
    by (rule Fetch_cached)
  with assms have "t = token f"
    by simp
  moreover from False have "AccessToken (token f) \<noteq> []"
    by (auto simp add: refreshRequired_def)
  ultimately show ?thesis
    using False by (simp add: Fetch_calls)
next
  case True
  obtain r w' where a: "adapter f ctx (ext s) = (r, w')"
    by (cases "adapter f ctx (ext s)")
  have r: "r = Return (t, None)"
  proof (cases r)
    case Panic
    with assms Fetch_refresh_panic [OF True, of ctx w'] a show ?thesis
      by simp
  next
    case (Return p)
    obtain t' e' where p: "p = (t', e')"
      by (cases p)
    show ?thesis
    proof (cases e')
      case None
      with assms Fetch_refresh_ok [OF True, of ctx t' w'] a Return p show ?thesis
        by simp
    next
      case (Some e)
      with assms Fetch_refresh_err [OF True, of ctx t' e w'] a Return p show ?thesis
        by simp
    qed
  qed
  from Fetch_refresh_ok [OF True, of ctx t w'] a r
  have "fetcher_after (Fetch f ctx s) = f\<lparr>token := t\<rparr>"
    by simp
  then have "token (fetcher_after (Fetch f ctx s)) = t"
    and "AccessToken t = [] \<Longrightarrow> refreshRequired (fetcher_after (Fetch f ctx s)) w2"
    by (simp_all add: refreshRequired_def)
  then show ?thesis
    using True a r by (simp add: Fetch_calls)
qed

theorem Fetch_nil_error_token_witness:
  "results_of (Fetch (testFetcher Minute emptyAdapter zero_Token) ''ctx-1'' env0) =
     Return (zero_Token, None) \<and>
   token (fetcher_after (Fetch (testFetcher Minute emptyAdapter zero_Token) ''ctx-1'' env0)) =
     zero_Token \<and>
   refreshRequired (fetcher_after (Fetch (testFetcher Minute emptyAdapter zero_Token) ''ctx-1'' env0))
     now2030 \<and>
   adapter_calls (env_after (Fetch (testFetcher Minute emptyAdapter zero_Token) ''ctx-1'' env0)) =
     [''ctx-1'']"
proof -
  let ?f = "testFetcher Minute emptyAdapter zero_Token"
  have h: "refreshRequired ?f (ext env0)"
    by (simp add: refreshRequired_testFetcher tok123_simps)
  have a: "adapter ?f ''ctx-1'' (ext env0) = (Return (zero_Token, None), now2030)"
    by (simp add: testFetcher_def emptyAdapter_def env0_def)
  have r: "results_of (Fetch ?f ''ctx-1'' env0) = Return (zero_Token, None)"
    using Fetch_refresh_ok [OF h a] by simp
  have "adapter_calls env0 = []"
    by (simp add: env0_def)
  with Fetch_nil_error_token [OF r, of now2030] h r show ?thesis
    by (simp add: tok123_simps)
qed

text \<open>
  The claim as the specification words it fails: an Adapter that returns the zero Token
  with a nil error makes \<^verbatim>\<open>Fetch\<close> on an empty cache return a Token with an empty access
  token and a nil error.
\<close>

theorem Fetch_serves_empty_token:
  "results_of (Fetch (testFetcher Minute emptyAdapter zero_Token) ''ctx-1'' env0) =
     Return (zero_Token, None) \<and>
   AccessToken zero_Token = []"
proof -
  have "refreshRequired (testFetcher Minute emptyAdapter zero_Token) (ext env0)"
    by (simp add: refreshRequired_testFetcher tok123_simps)
  moreover have "adapter (testFetcher Minute emptyAdapter zero_Token) ''ctx-1'' (ext env0) =
      (Return (zero_Token, None), now2030)"
    by (simp add: testFetcher_def emptyAdapter_def env0_def)
  ultimately show ?thesis
    using Fetch_refresh_ok by (fastforce simp add: tok123_simps)
qed

text \<open>
  Claim C8. When \<^verbatim>\<open>refreshRequired\<close> holds, the one entry that \<^verbatim>\<open>Fetch\<close> adds to the log
  of Adapter calls is the context the caller passed, and what \<^verbatim>\<open>Fetch\<close> returns and
  leaves of the outside world is what the Adapter yields when applied to that very context.
\<close>

theorem Fetch_passes_context:
  assumes "refreshRequired f (ext s)"
  shows "adapter_calls (env_after (Fetch f ctx s)) = adapter_calls s @ [ctx] \<and>
         ext (env_after (Fetch f ctx s)) = snd (adapter f ctx (ext s)) \<and>
         results_of (Fetch f ctx s) =
           (case fst (adapter f ctx (ext s)) of
              Panic \<Rightarrow> Panic
            | Return (t, None) \<Rightarrow> Return (t, None)
            | Return (t, Some err) \<Rightarrow> Return (zero_Token, Some err))"
proof -
  have "Fetch f ctx s = refresh f ctx s"
    using assms by (simp add: Fetch_def)
  then show ?thesis
    by (simp only: refresh_env refresh_results) simp
qed

theorem Fetch_passes_context_witness:
  "adapter_calls (env_after (Fetch (testFetcher Minute echoAdapter zero_Token) ''ctx-1'' env0)) =
     [''ctx-1''] \<and>
   results_of (Fetch (testFetcher Minute echoAdapter zero_Token) ''ctx-1'' env0) =
     Return (zero_Token\<lparr>AccessToken := ''ctx-1''\<rparr>, None)"
proof -
  let ?f = "testFetcher Minute echoAdapter zero_Token"
  have h: "refreshRequired ?f (ext env0)"
    by (simp add: refreshRequired_testFetcher tok123_simps)
  have "adapter ?f ''ctx-1'' (ext env0) = (Return (zero_Token\<lparr>AccessToken := ''ctx-1''\<rparr>, None), now2030)"
    "adapter_calls env0 = []"
    by (simp_all add: testFetcher_def echoAdapter_def env0_def)
  then show ?thesis
    using Fetch_passes_context [OF h, of "''ctx-1''"] by simp
qed

section \<open>The AWS Secrets Manager adapter: errors and panics\<close>

lemma awsFetch_store_error:
  "client a ctx \<lparr>SecretId = Some (key a)\<rparr> w = ((out, Some e), w') \<Longrightarrow>
   awsSecretsManagerAdapter_Fetch unmarshal a ctx w =
     (Return (zero_Token,
        Some (WrapError (''unable to fetch token from secrets manager: '' @ Error e) e)), w')"
  by (simp add: awsSecretsManagerAdapter_Fetch_def Errorf_w_def)

lemma awsFetch_nil_response:
  "client a ctx \<lparr>SecretId = Some (key a)\<rparr> w = ((None, None), w') \<Longrightarrow>
   awsSecretsManagerAdapter_Fetch unmarshal a ctx w = (Panic, w')"
  by (simp add: awsSecretsManagerAdapter_Fetch_def)

lemma awsFetch_nil_string:
  "client a ctx \<lparr>SecretId = Some (key a)\<rparr> w = ((Some out, None), w') \<Longrightarrow>
   SecretString out = None \<Longrightarrow>
   awsSecretsManagerAdapter_Fetch unmarshal a ctx w = (Panic, w')"
  by (simp add: awsSecretsManagerAdapter_Fetch_def)

lemma awsFetch_parse_error:
  "client a ctx \<lparr>SecretId = Some (key a)\<rparr> w = ((Some out, None), w') \<Longrightarrow>
   SecretString out = Some payload \<Longrightarrow> unmarshal payload zero_Token = (t, Some e) \<Longrightarrow>
   awsSecretsManagerAdapter_Fetch unmarshal a ctx w =
     (Return (zero_Token,
        Some (WrapError (''unable to parse token from secrets manager: '' @ Error e) e)), w')"
  by (simp add: awsSecretsManagerAdapter_Fetch_def Errorf_w_def)

lemma awsFetch_ok:
  "client a ctx \<lparr>SecretId = Some (key a)\<rparr> w = ((Some out, None), w') \<Longrightarrow>
   SecretString out = Some payload \<Longrightarrow> unmarshal payload zero_Token = (t, None) \<Longrightarrow>
   awsSecretsManagerAdapter_Fetch unmarshal a ctx w = (Return (t, None), w')"
  by (simp add: awsSecretsManagerAdapter_Fetch_def)

lemma testAdapter_store_error:
  "client (testAdapter storeErrorClient) ctx \<lparr>SecretId = Some (key (testAdapter storeErrorClient))\<rparr> w =
     ((Some \<lparr>SecretString = None\<rparr>, Some (ErrorString ''secrets manager error'')), w)"
  by (simp add: testAdapter_def storeErrorClient_def)

lemma testAdapter_secret:
  "client (testAdapter (secretClient p)) ctx \<lparr>SecretId = Some (key (testAdapter (secretClient p)))\<rparr> w =
     ((Some \<lparr>SecretString = p\<rparr>, None), w)"
  by (simp add: testAdapter_def secretClient_def)

lemma testUnmarshal_invalid:
  "testUnmarshal ''{invalid-json]'' zero_Token =
     (zero_Token\<lparr>AccessToken := ''partial''\<rparr>, Some (ErrorString ''invalid character''))"
  by (simp add: testUnmarshal_def)

lemma testUnmarshal_valid:
  "testUnmarshal ''token-123'' zero_Token = (tok123, None)"
  by (simp add: testUnmarshal_def tok123_def)

lemma awsFetch_returns_error_iff:
  assumes "client a ctx \<lparr>SecretId = Some (key a)\<rparr> w = ((out, err), w')"
  shows "(\<exists>t' e'. fst (awsSecretsManagerAdapter_Fetch unmarshal a ctx w) = Return (t', Some e')) \<longleftrightarrow>
         (err \<noteq> None \<or>
          (\<exists>resp payload. out = Some resp \<and> SecretString resp = Some payload \<and>
             snd (unmarshal payload zero_Token) \<noteq> None))"
  using assms
  by (auto simp add: awsSecretsManagerAdapter_Fetch_def split: option.splits prod.splits)

lemma awsFetch_error_shape:
  assumes "fst (awsSecretsManagerAdapter_Fetch unmarshal a ctx w) = Return (t', Some e')"
  shows "t' = zero_Token \<and> Unwrap e' \<noteq> None"
  using assms
  by (auto simp add: awsSecretsManagerAdapter_Fetch_def Errorf_w_def
      split: option.splits prod.splits)

text \<open>
  Claim C6, as the code has it. Let the store answer the adapter's request with a response
  pointer \<open>out\<close> and an error \<open>err\<close>. If \<open>err\<close> is an error \<open>e\<close>, \<^verbatim>\<open>Fetch\<close> returns the
  zero Token and an error that wraps \<open>e\<close> and whose message is
  \<^verbatim>\<open>unable to fetch token from secrets manager: \<close> followed by the message of \<open>e\<close>. If the
  store call succeeds and parsing the secret string fails with \<open>e\<close>, \<^verbatim>\<open>Fetch\<close> returns the
  zero Token, whatever the parser had written, and an error that wraps \<open>e\<close> and whose
  message is \<^verbatim>\<open>unable to parse token from secrets manager: \<close> followed by the message of
  \<open>e\<close>. \<^verbatim>\<open>Fetch\<close> returns an error exactly when the store call or the parse fails, and
  every error it returns comes with the zero Token and wraps a cause.
\<close>

theorem awsFetch_errors:
  assumes "client a ctx \<lparr>SecretId = Some (key a)\<rparr> w = ((out, err), w')"
  shows "(err = Some e \<longrightarrow>
            awsSecretsManagerAdapter_Fetch unmarshal a ctx w =
              (Return (zero_Token,
                 Some (WrapError (''unable to fetch token from secrets manager: '' @ Error e) e)), w')) \<and>
         (err = None \<and> out = Some resp \<and> SecretString resp = Some payload \<and>
          unmarshal payload zero_Token = (t, Some e) \<longrightarrow>
            awsSecretsManagerAdapter_Fetch unmarshal a ctx w =
              (Return (zero_Token,
                 Some (WrapError (''unable to parse token from secrets manager: '' @ Error e) e)), w')) \<and>
         ((\<exists>t' e'. fst (awsSecretsManagerAdapter_Fetch unmarshal a ctx w) = Return (t', Some e')) \<longleftrightarrow>
            (err \<noteq> None \<or>
             (\<exists>resp payload. out = Some resp \<and> SecretString resp = Some payload \<and>
                snd (unmarshal payload zero_Token) \<noteq> None))) \<and>
         (fst (awsSecretsManagerAdapter_Fetch unmarshal a ctx w) = Return (t', Some e') \<longrightarrow>
            t' = zero_Token \<and> Unwrap e' \<noteq> None)"
proof -
  have store: "awsSecretsManagerAdapter_Fetch unmarshal a ctx w =
      (Return (zero_Token,
         Some (WrapError (''unable to fetch token from secrets manager: '' @ Error e) e)), w')"
    if "err = Some e"
    using assms that by (simp add: awsFetch_store_error)
  have parse: "awsSecretsManagerAdapter_Fetch unmarshal a ctx w =
      (Return (zero_Token,
         Some (WrapError (''unable to parse token from secrets manager: '' @ Error e) e)), w')"
    if "err = None \<and> out = Some resp \<and> SecretString resp = Some payload \<and>
      unmarshal payload zero_Token = (t, Some e)"
    using assms that by (simp add: awsFetch_parse_error)
  have shape: "t' = zero_Token \<and> Unwrap e' \<noteq> None"
    if "fst (awsSecretsManagerAdapter_Fetch unmarshal a ctx w) = Return (t', Some e')"
    using that by (rule awsFetch_error_shape)
  show ?thesis
    apply (intro conjI impI)
        apply (erule store)
       apply (erule parse)
      apply (rule awsFetch_returns_error_iff [OF assms])
     apply (drule shape, erule conjunct1)
    apply (drule shape, erule conjunct2)
    done
qed

theorem awsFetch_errors_witness:
  "awsSecretsManagerAdapter_Fetch testUnmarshal (testAdapter storeErrorClient) ''ctx-1'' now2030 =
     (Return (zero_Token,
        Some (WrapError ''unable to fetch token from secrets manager: secrets manager error''
               (ErrorString ''secrets manager error''))), now2030) \<and>
   awsSecretsManagerAdapter_Fetch testUnmarshal (testAdapter (secretClient (Some ''{invalid-json]'')))
       ''ctx-1'' now2030 =
     (Return (zero_Token,
        Some (WrapError ''unable to parse token from secrets manager: invalid character''
               (ErrorString ''invalid character''))), now2030)"
proof -
  have c1: "client (testAdapter storeErrorClient) ''ctx-1''
        \<lparr>SecretId = Some (key (testAdapter storeErrorClient))\<rparr> now2030 =
      ((Some \<lparr>SecretString = None\<rparr>, Some (ErrorString ''secrets manager error'')), now2030)"
    by (rule testAdapter_store_error)
  have c2: "client (testAdapter (secretClient (Some ''{invalid-json]''))) ''ctx-1''
        \<lparr>SecretId = Some (key (testAdapter (secretClient (Some ''{invalid-json]''))))\<rparr> now2030 =
      ((Some \<lparr>SecretString = Some ''{invalid-json]''\<rparr>, None), now2030)"
    by (rule testAdapter_secret)
  have "awsSecretsManagerAdapter_Fetch testUnmarshal (testAdapter storeErrorClient) ''ctx-1'' now2030 =
     (Return (zero_Token,
        Some (WrapError ''unable to fetch token from secrets manager: secrets manager error''
               (ErrorString ''secrets manager error''))), now2030)"
    using awsFetch_errors [OF c1,
        where e = "ErrorString ''secrets manager error''" and unmarshal = testUnmarshal]
    by simp
  moreover have "awsSecretsManagerAdapter_Fetch testUnmarshal
       (testAdapter (secretClient (Some ''{invalid-json]''))) ''ctx-1'' now2030 =
     (Return (zero_Token,
        Some (WrapError ''unable to parse token from secrets manager: invalid character''
               (ErrorString ''invalid character''))), now2030)"
    using awsFetch_errors [OF c2,
        where e = "ErrorString ''invalid character''" and unmarshal = testUnmarshal
          and resp = "\<lparr>SecretString = Some ''{invalid-json]''\<rparr>"
          and payload = "''{invalid-json]''" and t = "zero_Token\<lparr>AccessToken := ''partial''\<rparr>"]
      testUnmarshal_invalid
    by simp
  ultimately show ?thesis
    by (rule conjI)
qed

text \<open>
  The messages of the two errors at the inputs of the repository's test: neither contains
  the text \<^verbatim>\<open>unable to fetch token from store\<close> or \<^verbatim>\<open>unable to parse token from store\<close>
  that the specification quotes.
\<close>

theorem awsFetch_error_messages:
  "fst (awsSecretsManagerAdapter_Fetch testUnmarshal (testAdapter storeErrorClient) ''ctx-1'' now2030) =
     Return (zero_Token,
        Some (WrapError ''unable to fetch token from secrets manager: secrets manager error''
               (ErrorString ''secrets manager error''))) \<and>
   \<not> sublist ''unable to fetch token from store''
       ''unable to fetch token from secrets manager: secrets manager error'' \<and>
   fst (awsSecretsManagerAdapter_Fetch testUnmarshal (testAdapter (secretClient (Some ''{invalid-json]'')))
       ''ctx-1'' now2030) =
     Return (zero_Token,
        Some (WrapError ''unable to parse token from secrets manager: invalid character''
               (ErrorString ''invalid character''))) \<and>
   \<not> sublist ''unable to parse token from store''
       ''unable to parse token from secrets manager: invalid character''"
proof -
  have "\<not> sublist ''unable to fetch token from store''
       ''unable to fetch token from secrets manager: secrets manager error''"
    by code_simp
  moreover have "\<not> sublist ''unable to parse token from store''
       ''unable to parse token from secrets manager: invalid character''"
    by code_simp
  moreover have "awsSecretsManagerAdapter_Fetch testUnmarshal (testAdapter storeErrorClient)
       ''ctx-1'' now2030 =
     (Return (zero_Token,
        Some (WrapError ''unable to fetch token from secrets manager: secrets manager error''
               (ErrorString ''secrets manager error''))), now2030)"
    using awsFetch_store_error [OF testAdapter_store_error, where unmarshal = testUnmarshal
        and ctx = "''ctx-1''" and w = now2030]
    by simp
  moreover have "awsSecretsManagerAdapter_Fetch testUnmarshal
       (testAdapter (secretClient (Some ''{invalid-json]''))) ''ctx-1'' now2030 =
     (Return (zero_Token,
        Some (WrapError ''unable to parse token from secrets manager: invalid character''
               (ErrorString ''invalid character''))), now2030)"
    using awsFetch_parse_error [where a = "testAdapter (secretClient (Some ''{invalid-json]''))"
        and out = "\<lparr>SecretString = Some ''{invalid-json]''\<rparr>" and ctx = "''ctx-1''"
        and w = now2030 and w' = now2030 and unmarshal = testUnmarshal
        and payload = "''{invalid-json]''" and t = "zero_Token\<lparr>AccessToken := ''partial''\<rparr>"
        and e = "ErrorString ''invalid character''"]
      testAdapter_secret [of "Some ''{invalid-json]''" "''ctx-1''" now2030]
      testUnmarshal_invalid
    by simp
  ultimately show ?thesis
    by simp
qed

text \<open>
  Claim C10. After a store call without error the adapter reads the secret string through
  the response pointer before it parses: \<^verbatim>\<open>Fetch\<close> panics exactly when the store returns
  a nil error together with a nil response or a response whose secret string is nil, and it
  does so whatever the parser is. When the secret string is present, \<^verbatim>\<open>Fetch\<close> returns, and
  its results are those of parsing that string.
\<close>

theorem awsFetch_panic_iff:
  assumes "client a ctx \<lparr>SecretId = Some (key a)\<rparr> w = ((out, err), w')"
  shows "(fst (awsSecretsManagerAdapter_Fetch unmarshal a ctx w) = Panic \<longleftrightarrow>
            err = None \<and> (case out of None \<Rightarrow> True | Some resp \<Rightarrow> SecretString resp = None)) \<and>
         (err = None \<and> out = Some resp \<and> SecretString resp = None \<longrightarrow>
            awsSecretsManagerAdapter_Fetch unmarshal a ctx w = (Panic, w')) \<and>
         (err = None \<and> out = Some resp \<and> SecretString resp = Some payload \<longrightarrow>
            awsSecretsManagerAdapter_Fetch unmarshal a ctx w =
              (case unmarshal payload zero_Token of
                 (t, None) \<Rightarrow> (Return (t, None), w')
               | (t, Some e) \<Rightarrow>
                   (Return (zero_Token,
                      Some (Errorf_w ''unable to parse token from secrets manager: '' e)), w')))"
  using assms
  by (auto simp add: awsSecretsManagerAdapter_Fetch_def split: option.splits prod.splits)

theorem awsFetch_panic_iff_witness:
  "awsSecretsManagerAdapter_Fetch testUnmarshal (testAdapter (secretClient None)) ''ctx-1'' now2030 =
     (Panic, now2030) \<and>
   awsSecretsManagerAdapter_Fetch testUnmarshal (testAdapter (secretClient (Some ''token-123'')))
       ''ctx-1'' now2030 =
     (Return (tok123, None), now2030)"
proof -
  have c1: "client (testAdapter (secretClient None)) ''ctx-1''
        \<lparr>SecretId = Some (key (testAdapter (secretClient None)))\<rparr> now2030 =
      ((Some \<lparr>SecretString = None\<rparr>, None), now2030)"
    by (rule testAdapter_secret)
  have c2: "client (testAdapter (secretClient (Some ''token-123''))) ''ctx-1''
        \<lparr>SecretId = Some (key (testAdapter (secretClient (Some ''token-123''))))\<rparr> now2030 =
      ((Some \<lparr>SecretString = Some ''token-123''\<rparr>, None), now2030)"
    by (rule testAdapter_secret)
  have "awsSecretsManagerAdapter_Fetch testUnmarshal (testAdapter (secretClient None))
      ''ctx-1'' now2030 = (Panic, now2030)"
    using awsFetch_panic_iff [OF c1, where unmarshal = testUnmarshal
        and resp = "\<lparr>SecretString = None\<rparr>"]
    by simp
  moreover have "awsSecretsManagerAdapter_Fetch testUnmarshal
      (testAdapter (secretClient (Some ''token-123''))) ''ctx-1'' now2030 =
      (Return (tok123, None), now2030)"
    using awsFetch_panic_iff [OF c2, where unmarshal = testUnmarshal
        and resp = "\<lparr>SecretString = Some ''token-123''\<rparr>" and payload = "''token-123''"]
      testUnmarshal_valid
    by simp
  ultimately show ?thesis
    by (rule conjI)
qed

end
